theory Spec2Isabelle
  imports Main
begin

section \<open>JavaScript strings\<close>

text \<open>
  A JavaScript string is modelled as a \<open>string\<close>, one \<open>char\<close> per code unit. The
  separators the program looks for (\<open>|\<close>, \<open>=\<close>, \<open>/\<close>, the line feed) are single code
  units, so indices and slices agree with the source's.
\<close>

definition nl :: char where
  "nl = CHR 0x0A"

definition quote :: char where
  "quote = CHR 0x27"

text \<open>\<open>s.split(sep)\<close> for a separator of one code unit: never the empty array.\<close>

fun split_on :: "char \<Rightarrow> string \<Rightarrow> string list" where
  "split_on sep [] = [[]]"
| "split_on sep (c # cs) =
     (if c = sep then [] # split_on sep cs
      else (let r = split_on sep cs in (c # hd r) # tl r))"

text \<open>\<open>s.split(sep, limit)\<close>: the first \<open>limit\<close> parts of the full split.\<close>

definition split_limit :: "char \<Rightarrow> nat \<Rightarrow> string \<Rightarrow> string list" where
  "split_limit sep limit s = take limit (split_on sep s)"

text \<open>\<open>parts.join(sep)\<close>.\<close>

fun join :: "char \<Rightarrow> string list \<Rightarrow> string" where
  "join sep [] = []"
| "join sep [p] = p"
| "join sep (p # q # ps) = p @ sep # join sep (q # ps)"

text \<open>Array destructuring \<open>[a, b, c] = parts\<close>: a missing element is \<open>undefined\<close>.\<close>

definition element_at :: "'a list \<Rightarrow> nat \<Rightarrow> 'a option" where
  "element_at xs i = (if i < length xs then Some (xs ! i) else None)"

definition startsWith :: "string \<Rightarrow> string \<Rightarrow> bool" where
  "startsWith s p = (take (length p) s = p)"

definition endsWith :: "string \<Rightarrow> string \<Rightarrow> bool" where
  "endsWith s p = (length p \<le> length s \<and> drop (length s - length p) s = p)"

text \<open>\<open>s.lastIndexOf(c)\<close>: the last index of the code unit, or \<open>-1\<close>.\<close>

fun lastIndexFrom :: "char \<Rightarrow> string \<Rightarrow> int \<Rightarrow> int \<Rightarrow> int" where
  "lastIndexFrom c [] i found = found"
| "lastIndexFrom c (x # xs) i found = lastIndexFrom c xs (i + 1) (if x = c then i else found)"

definition lastIndexOf :: "string \<Rightarrow> char \<Rightarrow> int" where
  "lastIndexOf s c = lastIndexFrom c s 0 (- 1)"

text \<open>\<open>s.slice(start)\<close>: a negative start counts from the end, clamped to 0.\<close>

definition slice_from :: "string \<Rightarrow> int \<Rightarrow> string" where
  "slice_from s start =
     (if start < 0 then drop (nat (int (length s) + start)) s else drop (nat start) s)"

text \<open>\<open>indent(text, indentSize = 4)\<close> of index.js, on the text already rendered.\<close>

definition indent :: "string \<Rightarrow> nat \<Rightarrow> string" where
  "indent text indentSize =
     (let indentText = replicate indentSize (CHR '' '')
      in join nl (map (\<lambda>line. indentText @ line) (split_on nl text)))"

section \<open>The argument parser\<close>

text \<open>
  \<open>ImportDocument\<close> and \<open>AppConfig\<close> of index.js. A token with fewer than three
  \<open>|\<close>-separated parts leaves the missing fields \<open>undefined\<close>: \<open>None\<close>.
\<close>

record import_document =
  url :: "string option"
  targetPath :: "string option"
  transformerPath :: "string option"

record app_config =
  documents :: "import_document list"
  parallel :: bool

text \<open>
  The state of the loop of \<open>parseArgs\<close>: the configuration built so far and the lines
  written with \<open>console.warn\<close>.
\<close>

type_synonym parse_state = "app_config \<times> string list"

definition invalidValueWarning :: "string \<Rightarrow> string" where
  "invalidValueWarning v = ''Invalid value for argument --parallel '' @ quote # v @ [quote]"

definition invalidNameWarning :: "string \<Rightarrow> string" where
  "invalidNameWarning n = ''Invalid argument name '' @ quote # n @ [quote]"

text \<open>The \<open>else\<close> branch of the loop body: the document a job token stands for.\<close>

definition documentOfToken :: "string \<Rightarrow> import_document" where
  "documentOfToken arg =
     (let parts = split_on (CHR ''|'') arg
      in \<lparr>url = element_at parts 0, targetPath = element_at parts 1,
          transformerPath = element_at parts 2\<rparr>)"

text \<open>The \<open>name\<close> and \<open>value\<close> of an option token: \<open>arg.slice(2).split('=', 2)\<close>.\<close>

definition optionName :: "string \<Rightarrow> string option" where
  "optionName arg = element_at (split_limit (CHR ''='') 2 (slice_from arg 2)) 0"

definition optionValue :: "string \<Rightarrow> string option" where
  "optionValue arg = element_at (split_limit (CHR ''='') 2 (slice_from arg 2)) 1"

text \<open>One iteration of the loop of \<open>parseArgs\<close>.\<close>

definition parseArg :: "parse_state \<Rightarrow> string \<Rightarrow> parse_state" where
  "parseArg st arg =
     (let config = fst st; warnings = snd st in
      if startsWith arg ''--'' then
        (if optionName arg = Some ''parallel'' then
           (case optionValue arg of
              None \<Rightarrow> (config\<lparr>parallel := True\<rparr>, warnings)
            | Some v \<Rightarrow>
                if v = ''true'' then (config\<lparr>parallel := True\<rparr>, warnings)
                else if v = ''false'' then (config\<lparr>parallel := False\<rparr>, warnings)
                else (config, warnings @ [invalidValueWarning v]))
         else
           (config, warnings @
              [invalidNameWarning (case optionName arg of None \<Rightarrow> ''undefined'' | Some n \<Rightarrow> n)]))
      else
        (config\<lparr>documents := documents config @ [documentOfToken arg]\<rparr>, warnings))"

definition parseArgs :: "string list \<Rightarrow> parse_state" where
  "parseArgs args = foldl parseArg (\<lparr>documents = [], parallel = True\<rparr>, []) args"




definition isJobToken :: "string \<Rightarrow> bool" where
  "isJobToken arg = (\<not> startsWith arg ''--'')"

section \<open>JavaScript values and scopes\<close>

text \<open>
  The values the program throws, catches and stores in its failure list: \<open>undefined\<close>,
  \<open>null\<close>, strings, error objects (\<open>name\<close> and \<open>message\<close>), an \<open>ImportDocument\<close>, an
  object \<open>{document, reason}\<close> (the \<open>ImportFailure\<close> of index.js), and a function or
  namespace bound at module or global level, known by its name only.
\<close>

datatype js_val =
    Undefined
  | Null
  | Str string
  | ErrorObj string string
  | DocObj import_document
  | FailureObj js_val string
  | Binding string

text \<open>\<open>!!v\<close>.\<close>

fun truthy :: "js_val \<Rightarrow> bool" where
  "truthy Undefined = False"
| "truthy Null = False"
| "truthy (Str s) = (s \<noteq> [])"
| "truthy v = True"

text \<open>
  The template rendering of a value. An error object renders as \<open>name: message\<close>, a plain
  object as \<open>[object Object]\<close>. The source text a function renders as is not tracked: no
  path of the program renders one.
\<close>

fun to_string :: "js_val \<Rightarrow> string" where
  "to_string Undefined = ''undefined''"
| "to_string Null = ''null''"
| "to_string (Str s) = s"
| "to_string (ErrorObj name msg) =
     (if msg = [] then name else if name = [] then msg else name @ '': '' @ msg)"
| "to_string (DocObj d) = ''[object Object]''"
| "to_string (FailureObj d r) = ''[object Object]''"
| "to_string (Binding name) = name"

text \<open>
  What an identifier resolves to when the function that reads it has no parameter or
  local of that name: index.js binds its imports and its functions at module level, and
  the global object holds the names of the runtime the program uses and \<open>WebImporter\<close>,
  which \<open>main\<close> installs. Any other identifier is unbound, and reading it throws a
  \<open>ReferenceError\<close>.
\<close>

definition module_bindings :: "string list" where
  "module_bindings =
     [''helix'', ''JSDOM'', ''fs'', ''path'', ''delay'', ''parseArgs'', ''fetchAsTextWithRetry'',
      ''indent'', ''importFailure'', ''importDocument'', ''main'']"

definition global_bindings :: "string list" where
  "global_bindings =
     [''WebImporter'', ''global'', ''process'', ''console'', ''fetch'', ''setTimeout'',
      ''Promise'', ''JSON'']"

definition read_outer :: "string \<Rightarrow> js_val + js_val" where
  "read_outer name =
     (if name \<in> set module_bindings \<or> name \<in> set global_bindings then Inr (Binding name)
      else Inl (ErrorObj ''ReferenceError'' (name @ '' is not defined'')))"

text \<open>\<open>throw f(...)\<close>: what the call throws, or else the value it returns.\<close>

definition throwResult :: "js_val + js_val \<Rightarrow> js_val + 'a" where
  "throwResult r = (case r of Inl thrown \<Rightarrow> Inl thrown | Inr v \<Rightarrow> Inl v)"

section \<open>The retrying fetcher\<close>

text \<open>
  The runtime's \<open>setTimeout(callback, delay)\<close>: Node checks that \<open>callback\<close> is a
  function and throws a \<open>TypeError\<close> (code \<open>ERR_INVALID_ARG_TYPE\<close>) when it is not;
  otherwise the timer is set and the callback runs once it expires.
\<close>

datatype timer_arg = NumberArg int | FunctionArg

definition setTimeout :: "timer_arg \<Rightarrow> timer_arg \<Rightarrow> js_val + unit" where
  "setTimeout callback after =
     (case callback of
        FunctionArg \<Rightarrow> Inr ()
      | NumberArg n \<Rightarrow> Inl (ErrorObj ''TypeError'' ''ERR_INVALID_ARG_TYPE''))"

text \<open>
  \<open>delay(ms)\<close>: the executor of the promise calls \<open>setTimeout(ms, resolve)\<close>. What the
  executor throws rejects the promise, and the \<open>await\<close> rethrows it; a timer that was
  set resolves the promise when it expires.
\<close>

definition delay :: "int \<Rightarrow> js_val + unit" where
  "delay ms = (case setTimeout (NumberArg ms) FunctionArg of Inl e \<Rightarrow> Inl e | Inr u \<Rightarrow> Inr ())"

text \<open>
  One call of \<open>fetch(url)\<close>: it throws (a network error, an invalid URL), or gives a
  response with a status and the outcome of \<open>response.text()\<close>.
\<close>

datatype fetch_outcome = FetchThrows js_val | Response int "js_val + string"

text \<open>How the \<open>try\<close> block of one iteration ends.\<close>

datatype attempt = Break string | Continue | Caught js_val

definition tryAttempt :: "fetch_outcome \<Rightarrow> int \<Rightarrow> attempt" where
  "tryAttempt outcome delayBetweenRetries =
     (case outcome of
        FetchThrows e \<Rightarrow> Caught e
      | Response status body \<Rightarrow>
          if status \<noteq> 200 then
            (case delay delayBetweenRetries of Inl e \<Rightarrow> Caught e | Inr u \<Rightarrow> Continue)
          else (case body of Inl e \<Rightarrow> Caught e | Inr text \<Rightarrow> Break text))"

text \<open>
  The loop of \<open>fetchAsTextWithRetry\<close> from iteration \<open>iter\<close> on; \<open>net i\<close> is the outcome
  of the call of \<open>fetch\<close> in iteration \<open>i\<close>. The result is the value the returned promise
  rejects with (\<open>Inl\<close>), \<open>null\<close> (\<open>Inr None\<close>) or the text. The \<open>console.debug\<close> and
  \<open>console.error\<close> lines of the loop are left out.
\<close>

function fetchAttempts :: "(int \<Rightarrow> fetch_outcome) \<Rightarrow> int \<Rightarrow> int \<Rightarrow> int \<Rightarrow> js_val + string option" where
  "fetchAttempts net maxRetries delayBetweenRetries iter =
     (if iter < maxRetries then
        (case tryAttempt (net iter) delayBetweenRetries of
           Break text \<Rightarrow> Inr (Some text)
         | Continue \<Rightarrow> fetchAttempts net maxRetries delayBetweenRetries (iter + 1)
         | Caught e \<Rightarrow>
             (case delay delayBetweenRetries of
                Inl thrown \<Rightarrow> Inl thrown
              | Inr u \<Rightarrow> fetchAttempts net maxRetries delayBetweenRetries (iter + 1)))
      else Inr None)"
  by pat_completeness auto
termination
  by (relation "measure (\<lambda>(net, maxRetries, d, iter). nat (maxRetries - iter))") auto

declare fetchAttempts.simps [simp del]

definition fetchAsTextWithRetry :: "(int \<Rightarrow> fetch_outcome) \<Rightarrow> int \<Rightarrow> int \<Rightarrow> js_val + string option" where
  "fetchAsTextWithRetry net maxRetries delayBetweenRetries =
     fetchAttempts net maxRetries delayBetweenRetries 0"

text \<open>
  What the spec asks of the fetcher, to compare with the code: the text of the first
  attempt among the first \<open>maxRetries\<close> that has status 200, \<open>null\<close> when there is none.
\<close>

definition succeeds :: "fetch_outcome \<Rightarrow> bool" where
  "succeeds outcome = (case outcome of Response status (Inr text) \<Rightarrow> status = 200 | _ \<Rightarrow> False)"

definition bodyText :: "fetch_outcome \<Rightarrow> string" where
  "bodyText outcome = (case outcome of Response status (Inr text) \<Rightarrow> text | _ \<Rightarrow> [])"

definition retryingFetchSpec :: "(int \<Rightarrow> fetch_outcome) \<Rightarrow> nat \<Rightarrow> string option" where
  "retryingFetchSpec net maxRetries =
     (case filter (\<lambda>i. succeeds (net (int i))) [0..<maxRetries] of
        [] \<Rightarrow> None
      | i # rest \<Rightarrow> Some (bodyText (net (int i))))"

text \<open>
  A server that answers 503 once and 200 from then on, one that never answers 200, and
  one that answers 200 at once.
\<close>

definition net_503_then_200 :: "int \<Rightarrow> fetch_outcome" where
  "net_503_then_200 i =
     (if i = 0 then Response 503 (Inr ''Service Unavailable'') else Response 200 (Inr ''<html></html>''))"

definition net_always_503 :: "int \<Rightarrow> fetch_outcome" where
  "net_always_503 i = Response 503 (Inr ''Service Unavailable'')"

definition net_200 :: "int \<Rightarrow> fetch_outcome" where
  "net_200 i = Response 200 (Inr ''<html></html>'')"

section \<open>The job pipeline\<close>

text \<open>
  \<open>importFailure(reason, error)\<close>. Its body reads \<open>e\<close> (when \<open>error\<close> is truthy) and
  \<open>doc\<close>; neither is a parameter or a local of the function, so both are resolved
  outside it.
\<close>

definition importFailure :: "string \<Rightarrow> js_val \<Rightarrow> js_val + js_val" where
  "importFailure reason error =
     (case (if truthy error then
              (case read_outer ''e'' of
                 Inl thrown \<Rightarrow> Inl thrown
               | Inr e \<Rightarrow> Inr (reason @ nl # indent (to_string e) 4))
            else Inr reason) of
        Inl thrown \<Rightarrow> Inl thrown
      | Inr reasonText \<Rightarrow>
          (case read_outer ''doc'' of
             Inl thrown \<Rightarrow> Inl thrown
           | Inr doc \<Rightarrow> Inr (FailureObj doc reasonText)))"

text \<open>
  What the spec asks of a failure value, to compare with the code: the job and the
  reason, with the error's description appended, indented, when there is an error.
\<close>

definition importFailureSpec :: "import_document \<Rightarrow> string \<Rightarrow> js_val \<Rightarrow> js_val" where
  "importFailureSpec doc reason error =
     FailureObj (DocObj doc)
       (if truthy error then reason @ nl # indent (to_string error) 4 else reason)"

text \<open>
  The external library's data: the document tree JSDOM builds, an element of it, and the
  object \<open>{url, document, html, params}\<close> the library hands to a transformer.
\<close>

datatype dom = Dom string

datatype element = Element string

datatype transform_args = TransformArgs "string option" dom string "string list"

text \<open>
  The default export of a transformer module, as far as the pipeline looks at it: the
  two capabilities, each absent or a function that returns or throws.
\<close>

record transformer =
  transformDOM :: "(transform_args \<Rightarrow> js_val + dom) option"
  transform :: "(transform_args \<Rightarrow> js_val + (element \<times> string) list) option"

text \<open>The \<open>transformConfig\<close> object: the one or the other shape.\<close>

datatype transform_config =
    DOMConfig "transform_args \<Rightarrow> js_val + dom" "transform_args \<Rightarrow> string option"
  | FragmentConfig "transform_args \<Rightarrow> js_val + (element \<times> string) list"

text \<open>
  The path template of the Fragment shape:
  \<open>${targetPath}${targetPath.endsWith('/') ? '' : '/'}${path.slice(path.lastIndexOf('/') + 1)}\<close>.
  An \<open>undefined\<close> \<open>targetPath\<close> has no \<open>endsWith\<close>: the template throws.
\<close>

definition rewritePath :: "string option \<Rightarrow> string \<Rightarrow> js_val + string" where
  "rewritePath target p =
     (case target of
        None \<Rightarrow> Inl (ErrorObj ''TypeError'' ''Cannot read properties of undefined (reading endsWith)'')
      | Some t \<Rightarrow>
          Inr (t @ (if endsWith t ''/'' then [] else ''/'')
                 @ slice_from p (lastIndexOf p (CHR ''/'') + 1)))"

text \<open>\<open>xs.map(f)\<close> for an \<open>f\<close> that may throw: the first throw ends the map.\<close>

fun map_throwing :: "('a \<Rightarrow> 'e + 'b) \<Rightarrow> 'a list \<Rightarrow> 'e + 'b list" where
  "map_throwing f [] = Inr []"
| "map_throwing f (x # xs) =
     (case f x of
        Inl thrown \<Rightarrow> Inl thrown
      | Inr y \<Rightarrow> (case map_throwing f xs of Inl thrown \<Rightarrow> Inl thrown | Inr ys \<Rightarrow> Inr (y # ys)))"

text \<open>The \<open>transform\<close> function of the Fragment shape.\<close>

definition fragmentTransform ::
  "string option \<Rightarrow> (transform_args \<Rightarrow> js_val + (element \<times> string) list) \<Rightarrow>
   transform_args \<Rightarrow> js_val + (element \<times> string) list" where
  "fragmentTransform target inner args =
     (case inner args of
        Inl thrown \<Rightarrow> Inl thrown
      | Inr pairs \<Rightarrow>
          map_throwing
            (\<lambda>(el, p). case rewritePath target p of
                          Inl thrown \<Rightarrow> Inl thrown
                        | Inr p' \<Rightarrow> Inr (el, p'))
            pairs)"

definition invalidTransformerReason :: string where
  "invalidTransformerReason =
     ''Invalid transformer, it doesn'' @ quote #
     ''t have either a transformDOM or transform function,'' @ nl #
     ''see https://github.com/adobe/helix-importer?tab=readme-ov-file#html2x-helpers''"

text \<open>
  The \<open>if\<close> / \<open>else if\<close> / \<open>else\<close> of \<open>importDocument\<close> that builds \<open>transformConfig\<close>
  from the loaded transformer.
\<close>

definition transformConfigFor :: "import_document \<Rightarrow> transformer \<Rightarrow> js_val + transform_config" where
  "transformConfigFor doc t =
     (case transformDOM t of
        Some f \<Rightarrow> Inr (DOMConfig (\<lambda>args. f args) (\<lambda>args. targetPath doc))
      | None \<Rightarrow>
          (case transform t of
             Some g \<Rightarrow> Inr (FragmentConfig (fragmentTransform (targetPath doc) g))
           | None \<Rightarrow> throwResult (importFailure invalidTransformerReason Undefined)))"

text \<open>\<open>ImportResult\<close> of index.js: what \<open>helix.html2docx\<close> resolves to.\<close>

record import_result =
  docx :: "nat list"
  html :: string
  md :: string
  path :: string

text \<open>
  What lies outside the program for one run of the pipeline: the outcome of each call of
  \<open>fetch\<close> (by its number), of the dynamic \<open>import\<close> (the module's default export,
  \<open>None\<close> when it has none), of \<open>helix.html2docx\<close> (which also gets JSDOM's document
  constructor, the same for every job), of
  \<open>fs.mkdir(path.dirname(p), {recursive: true})\<close> (by \<open>p\<close>) and of \<open>fs.writeFile\<close>.
\<close>

record world =
  fetch :: "string option \<Rightarrow> int \<Rightarrow> fetch_outcome"
  import_module :: "string option \<Rightarrow> js_val + transformer option"
  html2docx :: "string option \<Rightarrow> string \<Rightarrow> transform_config \<Rightarrow> js_val + import_result"
  mkdir_dirname :: "string \<Rightarrow> js_val + unit"
  writeFile :: "string \<Rightarrow> nat list \<Rightarrow> js_val + unit"

definition writeResult :: "world \<Rightarrow> import_result \<Rightarrow> js_val + unit" where
  "writeResult w result =
     (case mkdir_dirname w (path result) of
        Inl e \<Rightarrow> Inl e
      | Inr u \<Rightarrow> writeFile w (path result) (docx result))"

text \<open>
  \<open>importDocument(doc)\<close>: \<open>Inl\<close> the value the returned promise rejects with, \<open>Inr\<close> the
  result it resolves to. The \<open>console.debug\<close> lines are left out.
\<close>

definition importDocument :: "world \<Rightarrow> import_document \<Rightarrow> js_val + import_result" where
  "importDocument w doc =
     (case fetchAsTextWithRetry (fetch w (url doc)) 3 250 of
        Inl thrown \<Rightarrow> Inl thrown
      | Inr None \<Rightarrow> throwResult (importFailure ''Failed to fetch URL'' Null)
      | Inr (Some htmlText) \<Rightarrow>
          if htmlText = [] then throwResult (importFailure ''Failed to fetch URL'' Null)
          else
            (case import_module w (transformerPath doc) of
               Inl e \<Rightarrow> throwResult (importFailure ''Failed to import transformer'' e)
             | Inr None \<Rightarrow>
                 Inl (ErrorObj ''TypeError''
                        ''Cannot read properties of undefined (reading transformDOM)'')
             | Inr (Some t) \<Rightarrow>
                 (case transformConfigFor doc t of
                    Inl thrown \<Rightarrow> Inl thrown
                  | Inr transformConfig \<Rightarrow>
                      (case html2docx w (url doc) htmlText transformConfig of
                         Inl e \<Rightarrow> throwResult (importFailure ''Failed to transform html2docx'' e)
                       | Inr result \<Rightarrow>
                           (case writeResult w result of
                              Inl e \<Rightarrow>
                                throwResult
                                  (importFailure
                                     ''Failed writing the resulting document to the filesystem'' e)
                            | Inr u \<Rightarrow> Inr result)))))"

text \<open>
  The spec's path rule for the Fragment shape, to compare with \<open>rewritePath\<close>: the final
  segment of the relative path (what follows its last \<open>/\<close>), joined to the output path
  with a \<open>/\<close> between them unless the output path already ends in one.
\<close>

definition finalSegment :: "string \<Rightarrow> string" where
  "finalSegment p = rev (takeWhile (\<lambda>c. c \<noteq> CHR ''/'') (rev p))"

definition joinUnder :: "string \<Rightarrow> string \<Rightarrow> string" where
  "joinUnder out p =
     (if out \<noteq> [] \<and> last out = CHR ''/'' then out else out @ ''/'') @ finalSegment p"

fun isDOMVariant :: "js_val + transform_config \<Rightarrow> bool" where
  "isDOMVariant (Inr (DOMConfig f g)) = True"
| "isDOMVariant r = False"

fun isFragmentVariant :: "js_val + transform_config \<Rightarrow> bool" where
  "isFragmentVariant (Inr (FragmentConfig f)) = True"
| "isFragmentVariant r = False"

text \<open>Example jobs, transformers and worlds.\<close>

definition example_doc :: import_document where
  "example_doc =
     \<lparr>url = Some ''https://example.com/a'', targetPath = Some ''out/dir'',
      transformerPath = Some ''./t.js''\<rparr>"

definition transformer_with_both :: transformer where
  "transformer_with_both =
     \<lparr>transformDOM = Some (\<lambda>args. Inr (Dom ''<main></main>'')),
      transform = Some (\<lambda>args. Inr [(Element ''img'', ''a/b/c.png'')])\<rparr>"

definition transformer_with_transform :: transformer where
  "transformer_with_transform =
     \<lparr>transformDOM = None,
      transform = Some (\<lambda>args. Inr [(Element ''img'', ''a/b/c.png''), (Element ''p'', ''d.docx'')])\<rparr>"

definition transformer_with_neither :: transformer where
  "transformer_with_neither = \<lparr>transformDOM = None, transform = None\<rparr>"

definition example_args :: transform_args where
  "example_args = TransformArgs (Some ''https://example.com/a'') (Dom ''<html></html>'') ''<html></html>'' []"

definition example_result :: import_result where
  "example_result = \<lparr>docx = [80, 75, 3, 4], html = ''<main></main>'', md = ''# a'', path = ''out/a.docx''\<rparr>"

text \<open>A world in which every step succeeds, and one in which the transformer module is missing.\<close>

definition world_ok :: world where
  "world_ok =
     \<lparr>fetch = (\<lambda>u i. Response 200 (Inr ''<html></html>'')),
      import_module = (\<lambda>p. Inr (Some transformer_with_both)),
      html2docx = (\<lambda>u h c. Inr example_result),
      mkdir_dirname = (\<lambda>p. Inr ()),
      writeFile = (\<lambda>p d. Inr ())\<rparr>"

definition world_transformer_missing :: world where
  "world_transformer_missing =
     world_ok\<lparr>import_module := (\<lambda>p. Inl (ErrorObj ''Error'' ''Cannot find module''))\<rparr>"

definition world_fetch_fails :: world where
  "world_fetch_fails = world_ok\<lparr>fetch := (\<lambda>u i. Response 503 (Inr []))\<rparr>"

section \<open>The batch runner\<close>

text \<open>
  \<open>Promise.allSettled(promises)\<close> of the runtime. A promise is given by the outcome it
  settles with: \<open>Inl\<close> the reason of a rejection, \<open>Inr\<close> the value of a fulfilment. The
  aggregate keeps an array with one slot per promise; when promise \<open>i\<close> settles, slot
  \<open>i\<close> is written; it fulfils with the array once every slot is written. \<open>order\<close> lists
  the promises in the order in which they settle; while a slot is empty the aggregate
  stays pending (\<open>None\<close>).
\<close>

definition settle :: "('e + 'a) list \<Rightarrow> ('e + 'a) option list \<Rightarrow> nat \<Rightarrow> ('e + 'a) option list" where
  "settle promises slots i =
     (if i < length promises then slots[i := Some (promises ! i)] else slots)"

fun allValues :: "'a option list \<Rightarrow> 'a list option" where
  "allValues [] = Some []"
| "allValues (None # slots) = None"
| "allValues (Some v # slots) =
     (case allValues slots of None \<Rightarrow> None | Some vs \<Rightarrow> Some (v # vs))"

definition allSettled :: "('e + 'a) list \<Rightarrow> nat list \<Rightarrow> ('e + 'a) list option" where
  "allSettled promises order =
     allValues (foldl (settle promises) (replicate (length promises) None) order)"

text \<open>
  \<open>appConfig.documents.map(doc => importDocument(doc))\<close>: one pipeline per document;
  \<open>w i\<close> is the world the pipeline of the document at position \<open>i\<close> meets.
\<close>

definition startAll :: "(nat \<Rightarrow> world) \<Rightarrow> import_document list \<Rightarrow> (js_val + import_result) list" where
  "startAll w docs = map (\<lambda>(i, doc). importDocument (w i) doc) (enumerate 0 docs)"

text \<open>The loop over \<open>promiseResults\<close>: the reason of each rejected one is pushed.\<close>

definition pushRejected :: "js_val list \<Rightarrow> js_val + import_result \<Rightarrow> js_val list" where
  "pushRejected failures promiseResult =
     (case promiseResult of Inl reason \<Rightarrow> failures @ [reason] | Inr v \<Rightarrow> failures)"

text \<open>
  A run of the batch gives the failure list and, as a record of what was run, each
  document whose pipeline was started with the outcome of that pipeline, in the order
  of the starts.
\<close>

type_synonym batch_run = "js_val list \<times> (import_document \<times> (js_val + import_result)) list"

definition runParallel :: "(nat \<Rightarrow> world) \<Rightarrow> nat list \<Rightarrow> import_document list \<Rightarrow> batch_run option" where
  "runParallel w order docs =
     (let promises = startAll w docs in
      case allSettled promises order of
        None \<Rightarrow> None
      | Some promiseResults \<Rightarrow> Some (foldl pushRejected [] promiseResults, zip docs promises))"

text \<open>The sequential loop: \<open>try { await importDocument(doc) } catch (e) { failures.push(e) }\<close>.\<close>

definition sequentialStep :: "(nat \<Rightarrow> world) \<Rightarrow> batch_run \<Rightarrow> nat \<times> import_document \<Rightarrow> batch_run" where
  "sequentialStep w st job =
     (let outcome = importDocument (w (fst job)) (snd job) in
      (case outcome of Inl e \<Rightarrow> fst st @ [e] | Inr v \<Rightarrow> fst st,
       snd st @ [(snd job, outcome)]))"

definition runSequential :: "(nat \<Rightarrow> world) \<Rightarrow> import_document list \<Rightarrow> batch_run" where
  "runSequential w docs = foldl (sequentialStep w) ([], []) (enumerate 0 docs)"

text \<open>
  The report on \<open>console.error\<close>: the line with the number of failures, then one line
  per failure with its \<open>document\<close> and its \<open>reason\<close> property. The lines are kept as
  data, not rendered. Destructuring \<open>null\<close> or \<open>undefined\<close> throws.
\<close>

datatype stderr_line = FailedCount nat | FailedImport js_val js_val

fun documentOf :: "js_val \<Rightarrow> js_val" where
  "documentOf (FailureObj d r) = d"
| "documentOf v = Undefined"

fun reasonOf :: "js_val \<Rightarrow> js_val" where
  "reasonOf (FailureObj d r) = Str r"
| "reasonOf v = Undefined"

fun reportEach :: "js_val list \<Rightarrow> stderr_line list \<times> js_val option" where
  "reportEach [] = ([], None)"
| "reportEach (f # fs) =
     (if f = Null \<or> f = Undefined then
        ([], Some (ErrorObj ''TypeError'' ''Cannot destructure property document''))
      else (FailedImport (documentOf f) (reasonOf f) # fst (reportEach fs), snd (reportEach fs)))"

definition report :: "js_val list \<Rightarrow> stderr_line list \<times> js_val option" where
  "report failures =
     (if length failures \<noteq> 0 then
        (FailedCount (length failures) # fst (reportEach failures), snd (reportEach failures))
      else ([], None))"

text \<open>
  \<open>main\<close>, on the argument list \<open>process.argv.slice(2)\<close>, after it has installed
  \<open>global.WebImporter\<close>: \<open>None\<close> while the promise of
  \<open>main\<close> is pending, else the failure list, the pipelines run, the lines on
  \<open>console.error\<close> and \<open>console.warn\<close>, and what \<open>main\<close> threw, if anything.
\<close>

record main_result =
  out_failures :: "js_val list"
  out_ran :: "(import_document \<times> (js_val + import_result)) list"
  out_stderr :: "stderr_line list"
  out_warnings :: "string list"
  out_thrown :: "js_val option"

definition main :: "(nat \<Rightarrow> world) \<Rightarrow> nat list \<Rightarrow> string list \<Rightarrow> main_result option" where
  "main w order args =
     (let appConfig = fst (parseArgs args) in
      case (if parallel appConfig then runParallel w order (documents appConfig)
            else Some (runSequential w (documents appConfig))) of
        None \<Rightarrow> None
      | Some run \<Rightarrow>
          Some \<lparr>out_failures = fst run, out_ran = snd run,
                out_stderr = fst (report (fst run)), out_warnings = snd (parseArgs args),
                out_thrown = snd (report (fst run))\<rparr>)"

text \<open>
  For comparison with the code: the reasons of the rejected pipelines of a batch in
  the order of the job list, and in the order in which the pipelines settle.
\<close>

definition rejections :: "(js_val + import_result) list \<Rightarrow> js_val list" where
  "rejections outcomes = concat (map (\<lambda>r. case r of Inl e \<Rightarrow> [e] | Inr v \<Rightarrow> []) outcomes)"

definition settlementOrderFailures :: "(js_val + import_result) list \<Rightarrow> nat list \<Rightarrow> js_val list" where
  "settlementOrderFailures promises order =
     concat (map (\<lambda>i. case element_at promises i of Some (Inl e) \<Rightarrow> [e] | _ \<Rightarrow> []) order)"

text \<open>A batch of two jobs and of three, and the worlds their pipelines meet.\<close>

definition two_jobs :: "string list" where
  "two_jobs = [''http://a|a.docx|./t.js'', ''http://b|b.docx|./u.js'']"

definition both_fail :: "nat \<Rightarrow> world" where
  "both_fail i = (if i = 0 then world_fetch_fails else world_transformer_missing)"

definition first_fails :: "nat \<Rightarrow> world" where
  "first_fails i = (if i = 0 then world_transformer_missing else world_ok)"

definition doc_a :: import_document where
  "doc_a = \<lparr>url = Some ''http://a'', targetPath = Some ''a.docx'', transformerPath = Some ''./t.js''\<rparr>"

definition doc_b :: import_document where
  "doc_b = \<lparr>url = Some ''http://b'', targetPath = Some ''b.docx'', transformerPath = Some ''./u.js''\<rparr>"

section \<open>Properties of the argument parser\<close>


lemma split_on_no_sep: "sep \<notin> set s \<Longrightarrow> split_on sep s = [s]"
  by (induction s) (auto simp: Let_def)

lemma split_on_append:
  "sep \<notin> set a \<Longrightarrow> split_on sep (a @ sep # b) = a # split_on sep b"
  by (induction a) (auto simp: Let_def)

lemma parseArg_documents:
  "documents (fst (parseArg st arg)) =
     documents (fst st) @ (if isJobToken arg then [documentOfToken arg] else [])"
  by (simp add: parseArg_def isJobToken_def Let_def split: option.splits)

lemma foldl_parseArg_documents:
  "documents (fst (foldl parseArg st args)) =
     documents (fst st) @ map documentOfToken (filter isJobToken args)"
  by (induction args arbitrary: st) (simp_all add: parseArg_documents)








text \<open>
  C9. The documents of the parsed configuration are the job tokens (the tokens that do
  not start with \<open>--\<close>) in their order of appearance, one document per token, whatever
  options stand between them; and a token \<open>u|t|p\<close> whose three parts hold no \<open>|\<close> gives
  the document with \<open>url = u\<close>, \<open>targetPath = t\<close>, \<open>transformerPath = p\<close>.
\<close>

theorem parseArgs_jobs_in_order:
  "documents (fst (parseArgs args)) = map documentOfToken (filter isJobToken args)
   \<and> (\<forall>u t p. CHR ''|'' \<notin> set u \<and> CHR ''|'' \<notin> set t \<and> CHR ''|'' \<notin> set p \<longrightarrow>
        documentOfToken (u @ CHR ''|'' # t @ CHR ''|'' # p) =
          \<lparr>url = Some u, targetPath = Some t, transformerPath = Some p\<rparr>)"
proof (intro conjI allI impI)
  show "documents (fst (parseArgs args)) = map documentOfToken (filter isJobToken args)"
    by (simp add: parseArgs_def foldl_parseArg_documents)
next
  fix u t p :: string
  assume h: "CHR ''|'' \<notin> set u \<and> CHR ''|'' \<notin> set t \<and> CHR ''|'' \<notin> set p"
  then have "split_on (CHR ''|'') (u @ CHR ''|'' # t @ CHR ''|'' # p) = [u, t, p]"
    by (simp add: split_on_append split_on_no_sep)
  then show "documentOfToken (u @ CHR ''|'' # t @ CHR ''|'' # p) =
      \<lparr>url = Some u, targetPath = Some t, transformerPath = Some p\<rparr>"
    by (simp add: documentOfToken_def element_at_def)
qed

theorem parseArgs_jobs_in_order_witness:
  "documents (fst (parseArgs [''--parallel=false'', ''a|b|c'', ''--x'', ''d|e''])) =
     [\<lparr>url = Some ''a'', targetPath = Some ''b'', transformerPath = Some ''c''\<rparr>,
      \<lparr>url = Some ''d'', targetPath = Some ''e'', transformerPath = None\<rparr>]"
proof -
  note main = parseArgs_jobs_in_order [of "[''--parallel=false'', ''a|b|c'', ''--x'', ''d|e'']"]
  have abc: "documentOfToken ''a|b|c'' =
      \<lparr>url = Some ''a'', targetPath = Some ''b'', transformerPath = Some ''c''\<rparr>"
    using main [THEN conjunct2, rule_format, of "''a''" "''b''" "''c''"] by simp
  have de: "documentOfToken ''d|e'' =
      \<lparr>url = Some ''d'', targetPath = Some ''e'', transformerPath = None\<rparr>"
    by (simp add: documentOfToken_def element_at_def)
  show ?thesis
    using main [THEN conjunct1] abc de by (simp add: isJobToken_def startsWith_def)
qed


lemma option_parts_false: "startsWith ''--parallel=false'' ''--''
   \<and> optionName ''--parallel=false'' = Some ''parallel''
   \<and> optionValue ''--parallel=false'' = Some ''false''"
  by (simp add: startsWith_def optionName_def optionValue_def split_limit_def slice_from_def
      element_at_def)

lemma option_parts_true: "startsWith ''--parallel=true'' ''--''
   \<and> optionName ''--parallel=true'' = Some ''parallel''
   \<and> optionValue ''--parallel=true'' = Some ''true''"
  by (simp add: startsWith_def optionName_def optionValue_def split_limit_def slice_from_def
      element_at_def)

lemma option_parts_maybe: "startsWith ''--parallel=maybe'' ''--''
   \<and> optionName ''--parallel=maybe'' = Some ''parallel''
   \<and> optionValue ''--parallel=maybe'' = Some ''maybe''"
  by (simp add: startsWith_def optionName_def optionValue_def split_limit_def slice_from_def
      element_at_def)


section \<open>Properties of the retrying fetcher\<close>

lemma delay_throws: "delay ms = Inl (ErrorObj ''TypeError'' ''ERR_INVALID_ARG_TYPE'')"
  by (simp add: delay_def setTimeout_def)

lemma tryAttempt_succeeds: "succeeds outcome \<Longrightarrow> tryAttempt outcome d = Break (bodyText outcome)"
  by (auto simp: succeeds_def tryAttempt_def bodyText_def split: fetch_outcome.splits sum.splits)

lemma tryAttempt_fails: "\<not> succeeds outcome \<Longrightarrow> \<exists>e. tryAttempt outcome d = Caught e"
  by (auto simp: succeeds_def tryAttempt_def delay_throws split: fetch_outcome.splits sum.splits)

lemma fetchAsTextWithRetry_first_attempt:
  "fetchAsTextWithRetry net maxRetries d =
     (if maxRetries \<le> 0 then Inr None
      else if succeeds (net 0) then Inr (Some (bodyText (net 0)))
      else Inl (ErrorObj ''TypeError'' ''ERR_INVALID_ARG_TYPE''))"
proof (cases "maxRetries \<le> 0")
  case True
  then show ?thesis
    by (simp add: fetchAsTextWithRetry_def fetchAttempts.simps [of net maxRetries d 0])
next
  case False
  show ?thesis
  proof (cases "succeeds (net 0)")
    case True
    with False show ?thesis
      by (simp add: fetchAsTextWithRetry_def fetchAttempts.simps [of net maxRetries d 0]
          tryAttempt_succeeds)
  next
    case no: False
    then obtain e where "tryAttempt (net 0) d = Caught e"
      using tryAttempt_fails by blast
    with False no show ?thesis
      by (simp add: fetchAsTextWithRetry_def fetchAttempts.simps [of net maxRetries d 0]
          delay_throws)
  qed
qed

text \<open>
  C3. \<open>delay(ms)\<close> rejects for every \<open>ms\<close>: \<open>setTimeout\<close> gets the number as its
  callback. So when the first attempt throws or has a status other than 200, and there
  is a first attempt, \<open>fetchAsTextWithRetry\<close> rejects instead of trying again; it
  returns a text only when the first attempt has status 200, and the outcomes of later
  attempts never matter.
\<close>

theorem delay_rejects_so_fetch_never_retries:
  "delay ms = Inl (ErrorObj ''TypeError'' ''ERR_INVALID_ARG_TYPE'')
   \<and> (0 < maxRetries \<and> (net 0 = FetchThrows e \<or> (net 0 = Response status body \<and> status \<noteq> 200)) \<longrightarrow>
        fetchAsTextWithRetry net maxRetries d = Inl (ErrorObj ''TypeError'' ''ERR_INVALID_ARG_TYPE''))
   \<and> (fetchAsTextWithRetry net maxRetries d = Inr (Some text) \<longrightarrow>
        0 < maxRetries \<and> net 0 = Response 200 (Inr text))
   \<and> (net' 0 = net 0 \<longrightarrow>
        fetchAsTextWithRetry net' maxRetries d = fetchAsTextWithRetry net maxRetries d)"
proof (intro conjI impI)
  show "delay ms = Inl (ErrorObj ''TypeError'' ''ERR_INVALID_ARG_TYPE'')"
    by (rule delay_throws)
next
  assume "0 < maxRetries \<and> (net 0 = FetchThrows e \<or> (net 0 = Response status body \<and> status \<noteq> 200))"
  then have "0 < maxRetries" and "\<not> succeeds (net 0)"
    by (auto simp: succeeds_def)
  then show "fetchAsTextWithRetry net maxRetries d = Inl (ErrorObj ''TypeError'' ''ERR_INVALID_ARG_TYPE'')"
    by (simp add: fetchAsTextWithRetry_first_attempt)
next
  assume r: "fetchAsTextWithRetry net maxRetries d = Inr (Some text)"
  then show "0 < maxRetries"
    by (simp add: fetchAsTextWithRetry_first_attempt split: if_splits)
  from r have "succeeds (net 0)" and "bodyText (net 0) = text"
    by (simp_all add: fetchAsTextWithRetry_first_attempt split: if_splits)
  then show "net 0 = Response 200 (Inr text)"
    by (auto simp: succeeds_def bodyText_def split: fetch_outcome.splits sum.splits)
next
  assume "net' 0 = net 0"
  then show "fetchAsTextWithRetry net' maxRetries d = fetchAsTextWithRetry net maxRetries d"
    by (simp add: fetchAsTextWithRetry_first_attempt)
qed

theorem delay_rejects_so_fetch_never_retries_witness:
  "fetchAsTextWithRetry net_503_then_200 3 250 = Inl (ErrorObj ''TypeError'' ''ERR_INVALID_ARG_TYPE'')
   \<and> fetchAsTextWithRetry net_200 3 250 = Inr (Some ''<html></html>'')
   \<and> net_200 0 = Response 200 (Inr ''<html></html>'')
   \<and> fetchAsTextWithRetry net_always_503 3 250 = fetchAsTextWithRetry net_503_then_200 3 250"
proof -
  note first = delay_rejects_so_fetch_never_retries
      [of 250 3 net_503_then_200 Undefined 503 "Inr ''Service Unavailable''" 250 "[]"
        net_always_503]
  note second = delay_rejects_so_fetch_never_retries
      [of 250 3 net_200 Undefined 503 "Inr []" 250 "''<html></html>''" net_200]
  have n0: "net_503_then_200 0 = Response 503 (Inr ''Service Unavailable'')"
    and n1: "net_always_503 0 = net_503_then_200 0"
    by (simp_all add: net_503_then_200_def net_always_503_def)
  have a: "fetchAsTextWithRetry net_503_then_200 3 250 =
      Inl (ErrorObj ''TypeError'' ''ERR_INVALID_ARG_TYPE'')"
    using first [THEN conjunct2, THEN conjunct1] n0 by simp
  have d: "fetchAsTextWithRetry net_always_503 3 250 = fetchAsTextWithRetry net_503_then_200 3 250"
    using first [THEN conjunct2, THEN conjunct2, THEN conjunct2] n1 by simp
  have b: "fetchAsTextWithRetry net_200 3 250 = Inr (Some ''<html></html>'')"
    by (simp add: fetchAsTextWithRetry_first_attempt net_200_def succeeds_def bodyText_def)
  have c: "net_200 0 = Response 200 (Inr ''<html></html>'')"
    using second [THEN conjunct2, THEN conjunct2, THEN conjunct1] b by simp
  from a b c d show ?thesis by simp
qed

text \<open>
  C2, evaluated. With a first answer of 503 and a second of 200 the spec's fetcher
  returns the text of the second attempt; the code rejects after the first. With 503
  for all three attempts the spec's fetcher returns \<open>null\<close>; the code rejects as well.
\<close>

theorem fetchAsTextWithRetry_rejects_where_spec_retries:
  "fetchAsTextWithRetry net_503_then_200 3 250 = Inl (ErrorObj ''TypeError'' ''ERR_INVALID_ARG_TYPE'')
   \<and> retryingFetchSpec net_503_then_200 3 = Some ''<html></html>''
   \<and> fetchAsTextWithRetry net_always_503 3 250 = Inl (ErrorObj ''TypeError'' ''ERR_INVALID_ARG_TYPE'')
   \<and> retryingFetchSpec net_always_503 3 = None"
proof -
  have u: "[0..<3] = [0, 1, 2]"
    by (simp add: upt_rec)
  show ?thesis
    by (simp add: fetchAsTextWithRetry_first_attempt retryingFetchSpec_def u
        net_503_then_200_def net_always_503_def succeeds_def bodyText_def)
qed

section \<open>Properties of the transformer adapter\<close>

lemma lastIndexFrom_absent: "c \<notin> set xs \<Longrightarrow> lastIndexFrom c xs i found = found"
  by (induction xs arbitrary: i found) auto

lemma lastIndexFrom_last:
  "c \<notin> set zs \<Longrightarrow> lastIndexFrom c (ys @ c # zs) i found = i + int (length ys)"
  by (induction ys arbitrary: i found) (auto simp: lastIndexFrom_absent)

lemma slice_after_last_slash:
  "slice_from p (lastIndexOf p (CHR ''/'') + 1) = finalSegment p"
proof (cases "CHR ''/'' \<in> set p")
  case False
  then have idx: "lastIndexOf p (CHR ''/'') = - 1"
    by (simp add: lastIndexOf_def lastIndexFrom_absent)
  from False have tw: "takeWhile (\<lambda>c. c \<noteq> CHR ''/'') (rev p) = rev p"
    by (auto simp: takeWhile_eq_all_conv)
  have "finalSegment p = p"
    unfolding finalSegment_def tw by simp
  with idx show ?thesis
    by (simp add: slice_from_def)
next
  case True
  then obtain ys zs where p: "p = ys @ CHR ''/'' # zs" and zs: "CHR ''/'' \<notin> set zs"
    by (meson split_list_last)
  from zs have "lastIndexOf p (CHR ''/'') = int (length ys)"
    by (simp add: p lastIndexOf_def lastIndexFrom_last)
  then have l: "slice_from p (lastIndexOf p (CHR ''/'') + 1) = zs"
    by (simp add: slice_from_def p nat_add_distrib)
  from zs have tw: "takeWhile (\<lambda>c. c \<noteq> CHR ''/'') (rev zs @ CHR ''/'' # rev ys) = rev zs"
    by (auto simp: takeWhile_tail takeWhile_eq_all_conv)
  have "rev p = rev zs @ CHR ''/'' # rev ys"
    by (simp add: p)
  then have "finalSegment p = zs"
    unfolding finalSegment_def by (simp only: tw rev_rev_ident)
  with l show ?thesis by simp
qed

lemma endsWith_slash: "endsWith t ''/'' = (t \<noteq> [] \<and> last t = CHR ''/'')"
  by (cases t rule: rev_cases) (auto simp: endsWith_def)

lemma rewritePath_joinUnder: "rewritePath (Some out) p = Inr (joinUnder out p)"
  by (simp add: rewritePath_def joinUnder_def slice_after_last_slash endsWith_slash)

lemma map_throwing_rewrite:
  "map_throwing
     (\<lambda>(el, p). case rewritePath (Some out) p of Inl thrown \<Rightarrow> Inl thrown | Inr p' \<Rightarrow> Inr (el, p'))
     pairs = Inr (map (\<lambda>(el, p). (el, joinUnder out p)) pairs)"
  by (induction pairs) (auto simp: rewritePath_joinUnder)

text \<open>
  C8. A transformer that has \<open>transform\<close> and no \<open>transformDOM\<close> is adapted to the
  Fragment shape, whose \<open>transform\<close> keeps the elements and their order and replaces
  each relative path by the job's output path joined with the final segment of the
  relative path, with a \<open>/\<close> put between them only when the output path does not end
  in one: \<open>a/b/c.png\<close> becomes \<open>out/dir/c.png\<close> under \<open>out/dir\<close> and under \<open>out/dir/\<close>.
\<close>

theorem fragment_paths_joined_under_targetPath:
  "(transformDOM t = None \<and> transform t = Some inner \<longrightarrow>
      transformConfigFor doc t = Inr (FragmentConfig (fragmentTransform (targetPath doc) inner)))
   \<and> (inner args = Inr pairs \<longrightarrow>
        fragmentTransform (Some out) inner args = Inr (map (\<lambda>(el, p). (el, joinUnder out p)) pairs))
   \<and> rewritePath (Some out) p = Inr (joinUnder out p)
   \<and> joinUnder ''out/dir'' ''a/b/c.png'' = ''out/dir/c.png''
   \<and> joinUnder ''out/dir/'' ''a/b/c.png'' = ''out/dir/c.png''"
proof (intro conjI impI)
  assume "transformDOM t = None \<and> transform t = Some inner"
  then show "transformConfigFor doc t =
      Inr (FragmentConfig (fragmentTransform (targetPath doc) inner))"
    by (simp add: transformConfigFor_def)
next
  assume "inner args = Inr pairs"
  then show "fragmentTransform (Some out) inner args =
      Inr (map (\<lambda>(el, p). (el, joinUnder out p)) pairs)"
    by (simp add: fragmentTransform_def map_throwing_rewrite)
next
  show "rewritePath (Some out) p = Inr (joinUnder out p)"
    by (rule rewritePath_joinUnder)
next
  show "joinUnder ''out/dir'' ''a/b/c.png'' = ''out/dir/c.png''"
    by (simp add: joinUnder_def finalSegment_def)
next
  show "joinUnder ''out/dir/'' ''a/b/c.png'' = ''out/dir/c.png''"
    by (simp add: joinUnder_def finalSegment_def)
qed

theorem fragment_paths_joined_under_targetPath_witness:
  "(case transformConfigFor example_doc transformer_with_transform of
      Inr (FragmentConfig f) \<Rightarrow>
        f example_args = Inr [(Element ''img'', ''out/dir/c.png''), (Element ''p'', ''out/dir/d.docx'')]
    | Inr (DOMConfig f g) \<Rightarrow> False
    | Inl thrown \<Rightarrow> False)"
proof -
  let ?inner = "\<lambda>args :: transform_args.
      (Inr [(Element ''img'', ''a/b/c.png''), (Element ''p'', ''d.docx'')]
        :: js_val + (element \<times> string) list)"
  note inst = fragment_paths_joined_under_targetPath
      [of transformer_with_transform ?inner example_doc example_args
        "[(Element ''img'', ''a/b/c.png''), (Element ''p'', ''d.docx'')]" "''out/dir''" "[]"]
  have cfg: "transformConfigFor example_doc transformer_with_transform =
      Inr (FragmentConfig (fragmentTransform (Some ''out/dir'') ?inner))"
    using inst [THEN conjunct1] by (simp add: transformer_with_transform_def example_doc_def)
  have run: "fragmentTransform (Some ''out/dir'') ?inner example_args =
      Inr [(Element ''img'', ''out/dir/c.png''), (Element ''p'', ''out/dir/d.docx'')]"
    using inst [THEN conjunct2, THEN conjunct1] by (simp add: joinUnder_def finalSegment_def)
  show ?thesis
    by (simp add: cfg run)
qed

text \<open>
  C4, as the code has it. A contract is built whenever a capability is present: a
  transformer with \<open>transformDOM\<close>, with or without \<open>transform\<close>, gives the DOM shape; one
  with \<open>transform\<close> only gives the Fragment shape; one with neither gives no contract,
  the pipeline fails there.
\<close>

theorem transformConfigFor_dispatch:
  "(transformDOM t \<noteq> None \<longrightarrow> isDOMVariant (transformConfigFor doc t))
   \<and> (transformDOM t = None \<and> transform t \<noteq> None \<longrightarrow> isFragmentVariant (transformConfigFor doc t))
   \<and> (transformDOM t = None \<and> transform t = None \<longrightarrow> isl (transformConfigFor doc t))
   \<and> isl (transformConfigFor doc t) = (transformDOM t = None \<and> transform t = None)"
  by (auto simp: transformConfigFor_def throwResult_def split: option.splits sum.splits)

theorem transformConfigFor_dispatch_witness:
  "isDOMVariant (transformConfigFor example_doc transformer_with_both)
   \<and> isFragmentVariant (transformConfigFor example_doc transformer_with_transform)
   \<and> isl (transformConfigFor example_doc transformer_with_neither)"
proof -
  have a: "isDOMVariant (transformConfigFor example_doc transformer_with_both)"
    using transformConfigFor_dispatch [of transformer_with_both example_doc, THEN conjunct1]
    by (simp add: transformer_with_both_def)
  have b: "isFragmentVariant (transformConfigFor example_doc transformer_with_transform)"
    using transformConfigFor_dispatch
      [of transformer_with_transform example_doc, THEN conjunct2, THEN conjunct1]
    by (simp add: transformer_with_transform_def)
  have c: "isl (transformConfigFor example_doc transformer_with_neither)"
    using transformConfigFor_dispatch
      [of transformer_with_neither example_doc, THEN conjunct2, THEN conjunct2, THEN conjunct1]
    by (simp add: transformer_with_neither_def)
  from a b c show ?thesis by simp
qed

text \<open>
  C4 as stated fails: a transformer with both capabilities is not an error, it is
  adapted to the DOM shape.
\<close>

theorem both_capabilities_build_DOM_contract:
  "transformDOM transformer_with_both \<noteq> None \<and> transform transformer_with_both \<noteq> None
   \<and> \<not> isl (transformConfigFor example_doc transformer_with_both)
   \<and> isDOMVariant (transformConfigFor example_doc transformer_with_both)"
  by (simp add: transformConfigFor_def transformer_with_both_def)

section \<open>Properties of the job pipeline\<close>

lemma importFailure_throws:
  "importFailure reason error =
     Inl (ErrorObj ''ReferenceError''
            (if truthy error then ''e is not defined'' else ''doc is not defined''))"
  by (simp add: importFailure_def read_outer_def module_bindings_def global_bindings_def)

text \<open>
  C1, evaluated. The transformer module of the job cannot be loaded: the spec's failure
  value holds the job and the reason with the error's description below it; the promise
  of \<open>importDocument\<close> rejects with a \<open>ReferenceError\<close> instead, thrown by
  \<open>importFailure\<close> itself.
\<close>

theorem importDocument_rejects_with_ReferenceError:
  "importDocument world_transformer_missing example_doc =
     Inl (ErrorObj ''ReferenceError'' ''e is not defined'')
   \<and> importFailureSpec example_doc ''Failed to import transformer''
        (ErrorObj ''Error'' ''Cannot find module'') =
      FailureObj (DocObj example_doc)
        (''Failed to import transformer'' @ nl # ''    Error: Cannot find module'')
   \<and> importFailure ''Failed to fetch URL'' Null =
       Inl (ErrorObj ''ReferenceError'' ''doc is not defined'')"
proof -
  have f: "fetchAsTextWithRetry (\<lambda>i. Response 200 (Inr ''<html></html>'')) 3 250 =
      Inr (Some ''<html></html>'')"
    by (simp add: fetchAsTextWithRetry_first_attempt succeeds_def bodyText_def)
  have w1: "fetch world_transformer_missing = (\<lambda>u i. Response 200 (Inr ''<html></html>''))"
    and w2: "import_module world_transformer_missing =
      (\<lambda>p. Inl (ErrorObj ''Error'' ''Cannot find module''))"
    by (simp_all add: world_transformer_missing_def world_ok_def)
  have a: "importDocument world_transformer_missing example_doc =
      Inl (ErrorObj ''ReferenceError'' ''e is not defined'')"
    unfolding importDocument_def w1 w2 f
    by (simp add: importFailure_throws throwResult_def)
  have r: "replicate 4 (CHR '' '') = ''    ''"
    by (simp add: numeral_eq_Suc)
  have n: "split_on nl ''Error: Cannot find module'' = [''Error: Cannot find module'']"
    by (rule split_on_no_sep) (simp add: nl_def)
  have i: "indent ''Error: Cannot find module'' 4 = ''    Error: Cannot find module''"
    unfolding indent_def n r by simp
  have b: "importFailureSpec example_doc ''Failed to import transformer''
        (ErrorObj ''Error'' ''Cannot find module'') =
      FailureObj (DocObj example_doc)
        (''Failed to import transformer'' @ nl # ''    Error: Cannot find module'')"
    by (simp add: importFailureSpec_def i)
  from a b show ?thesis
    by (simp add: importFailure_throws)
qed

section \<open>Properties of the batch runner\<close>

lemma length_foldl_settle: "length (foldl (settle ps) slots order) = length slots"
  by (induction order arbitrary: slots) (simp_all add: settle_def)

lemma nth_foldl_settle:
  "length slots = length ps \<Longrightarrow> j < length ps \<Longrightarrow>
   foldl (settle ps) slots order ! j = (if j \<in> set order then Some (ps ! j) else slots ! j)"
proof (induction order arbitrary: slots)
  case Nil
  then show ?case by simp
next
  case (Cons i order)
  have len: "length (settle ps slots i) = length ps"
    using Cons.prems(1) by (simp add: settle_def)
  have step: "settle ps slots i ! j = (if j = i then Some (ps ! j) else slots ! j)"
    using Cons.prems by (auto simp: settle_def nth_list_update)
  show ?case
    using Cons.IH [OF len Cons.prems(2)] step by auto
qed

lemma foldl_settle_all:
  assumes "set order = {0..<length ps}"
  shows "foldl (settle ps) (replicate (length ps) None) order = map Some ps"
proof (rule nth_equalityI)
  show "length (foldl (settle ps) (replicate (length ps) None) order) = length (map Some ps)"
    by (simp add: length_foldl_settle)
next
  fix j
  assume "j < length (foldl (settle ps) (replicate (length ps) None) order)"
  then have j: "j < length ps"
    by (simp add: length_foldl_settle)
  with assms have "j \<in> set order"
    by simp
  with j show "foldl (settle ps) (replicate (length ps) None) order ! j = map Some ps ! j"
    by (simp add: nth_foldl_settle)
qed

lemma allValues_map_Some: "allValues (map Some xs) = Some xs"
  by (induction xs) simp_all

lemma allSettled_complete: "set order = {0..<length ps} \<Longrightarrow> allSettled ps order = Some ps"
  by (simp add: allSettled_def foldl_settle_all allValues_map_Some)

lemma allValues_None: "None \<in> set slots \<Longrightarrow> allValues slots = None"
  by (induction slots rule: allValues.induct) auto

lemma allSettled_pending:
  assumes "j < length ps" and "j \<notin> set order"
  shows "allSettled ps order = None"
proof -
  let ?slots = "foldl (settle ps) (replicate (length ps) None) order"
  have "?slots ! j = None"
    using assms by (simp add: nth_foldl_settle)
  moreover have "j < length ?slots"
    using assms(1) by (simp add: length_foldl_settle)
  ultimately have "None \<in> set ?slots"
    by (metis nth_mem)
  then show ?thesis
    by (simp add: allSettled_def allValues_None)
qed

lemma foldl_pushRejected: "foldl pushRejected acc rs = acc @ rejections rs"
  by (induction rs arbitrary: acc) (auto simp: pushRejected_def rejections_def split: sum.splits)

lemma length_rejections: "length (rejections rs) = length (filter isl rs)"
  by (induction rs) (auto simp: rejections_def split: sum.splits)

lemma length_startAll: "length (startAll w docs) = length docs"
  by (simp add: startAll_def)

lemma runParallel_complete:
  "set order = {0..<length docs} \<Longrightarrow>
   runParallel w order docs = Some (rejections (startAll w docs), zip docs (startAll w docs))"
  by (simp add: runParallel_def Let_def allSettled_complete length_startAll foldl_pushRejected)

lemma rejections_Cons:
  "rejections (r # rs) = (case r of Inl e \<Rightarrow> [e] | Inr v \<Rightarrow> []) @ rejections rs"
  by (simp add: rejections_def)

lemma sequentialStep_eq:
  "sequentialStep w st job =
     (fst st @ (case importDocument (w (fst job)) (snd job) of Inl e \<Rightarrow> [e] | Inr v \<Rightarrow> []),
      snd st @ [(snd job, importDocument (w (fst job)) (snd job))])"
  by (simp add: sequentialStep_def Let_def split: sum.splits)

lemma foldl_sequentialStep:
  "foldl (sequentialStep w) st jobs =
     (fst st @ rejections (map (\<lambda>(i, doc). importDocument (w i) doc) jobs),
      snd st @ map (\<lambda>(i, doc). (doc, importDocument (w i) doc)) jobs)"
proof (induction jobs arbitrary: st)
  case Nil
  then show ?case by (simp add: rejections_def)
next
  case (Cons job jobs)
  have "foldl (sequentialStep w) st (job # jobs) =
      foldl (sequentialStep w) (sequentialStep w st job) jobs"
    by simp
  also have "\<dots> =
      (fst (sequentialStep w st job) @ rejections (map (\<lambda>(i, doc). importDocument (w i) doc) jobs),
       snd (sequentialStep w st job) @ map (\<lambda>(i, doc). (doc, importDocument (w i) doc)) jobs)"
    by (rule Cons.IH)
  also have "\<dots> =
      (fst st @ rejections (map (\<lambda>(i, doc). importDocument (w i) doc) (job # jobs)),
       snd st @ map (\<lambda>(i, doc). (doc, importDocument (w i) doc)) (job # jobs))"
    by (simp add: sequentialStep_eq rejections_Cons split_beta)
  finally show ?case .
qed

lemma zip_enumerate_outcomes:
  "map (\<lambda>(i, doc). (doc, f i doc)) (enumerate n docs) =
     zip docs (map (\<lambda>(i, doc). f i doc) (enumerate n docs))"
  by (induction docs arbitrary: n) simp_all

lemma runSequential_all:
  "runSequential w docs = (rejections (startAll w docs), zip docs (startAll w docs))"
  by (simp add: runSequential_def foldl_sequentialStep startAll_def zip_enumerate_outcomes)

lemma map_fst_zip_startAll: "map fst (zip docs (startAll w docs)) = docs"
  by (simp add: length_startAll)

lemma map_snd_zip_startAll: "map snd (zip docs (startAll w docs)) = startAll w docs"
  by (simp add: length_startAll)

lemma main_parallel:
  "parallel (fst (parseArgs args)) \<Longrightarrow> set order = {0..<length (documents (fst (parseArgs args)))} \<Longrightarrow>
   main w order args =
     Some \<lparr>out_failures = rejections (startAll w (documents (fst (parseArgs args)))),
           out_ran = zip (documents (fst (parseArgs args)))
                        (startAll w (documents (fst (parseArgs args)))),
           out_stderr = fst (report (rejections (startAll w (documents (fst (parseArgs args)))))),
           out_warnings = snd (parseArgs args),
           out_thrown = snd (report (rejections (startAll w (documents (fst (parseArgs args))))))\<rparr>"
  by (simp add: main_def Let_def runParallel_complete)

lemma main_parallel_pending:
  "parallel (fst (parseArgs args)) \<Longrightarrow> j < length (documents (fst (parseArgs args))) \<Longrightarrow>
   j \<notin> set order \<Longrightarrow> main w order args = None"
  by (simp add: main_def Let_def runParallel_def allSettled_pending length_startAll)

lemma main_sequential:
  "\<not> parallel (fst (parseArgs args)) \<Longrightarrow>
   main w order args =
     Some \<lparr>out_failures = rejections (startAll w (documents (fst (parseArgs args)))),
           out_ran = zip (documents (fst (parseArgs args)))
                        (startAll w (documents (fst (parseArgs args)))),
           out_stderr = fst (report (rejections (startAll w (documents (fst (parseArgs args)))))),
           out_warnings = snd (parseArgs args),
           out_thrown = snd (report (rejections (startAll w (documents (fst (parseArgs args))))))\<rparr>"
  by (simp add: main_def Let_def runSequential_all)

text \<open>The example worlds and batches, evaluated.\<close>

lemma importDocument_fetch_fails:
  "importDocument world_fetch_fails doc = Inl (ErrorObj ''TypeError'' ''ERR_INVALID_ARG_TYPE'')"
proof -
  have f: "fetch world_fetch_fails = (\<lambda>u i. Response 503 (Inr []))"
    by (simp add: world_fetch_fails_def)
  show ?thesis
    unfolding importDocument_def f
    by (simp add: fetchAsTextWithRetry_first_attempt succeeds_def)
qed

lemma fetch_200: "fetchAsTextWithRetry (\<lambda>i. Response 200 (Inr ''<html></html>'')) 3 250 =
    Inr (Some ''<html></html>'')"
  by (simp add: fetchAsTextWithRetry_first_attempt succeeds_def bodyText_def)

lemma importDocument_transformer_missing:
  "importDocument world_transformer_missing doc = Inl (ErrorObj ''ReferenceError'' ''e is not defined'')"
proof -
  have w1: "fetch world_transformer_missing = (\<lambda>u i. Response 200 (Inr ''<html></html>''))"
    and w2: "import_module world_transformer_missing =
      (\<lambda>p. Inl (ErrorObj ''Error'' ''Cannot find module''))"
    by (simp_all add: world_transformer_missing_def world_ok_def)
  show ?thesis
    unfolding importDocument_def w1 w2 fetch_200
    by (simp add: importFailure_throws throwResult_def)
qed

lemma importDocument_ok: "importDocument world_ok doc = Inr example_result"
proof -
  have w1: "fetch world_ok = (\<lambda>u i. Response 200 (Inr ''<html></html>''))"
    and w2: "import_module world_ok = (\<lambda>p. Inr (Some transformer_with_both))"
    and w3: "html2docx world_ok = (\<lambda>u h c. Inr example_result)"
    and w4: "writeResult world_ok example_result = Inr ()"
    by (simp_all add: world_ok_def writeResult_def)
  have c: "\<exists>f g. transformConfigFor doc transformer_with_both = Inr (DOMConfig f g)"
    by (simp add: transformConfigFor_def transformer_with_both_def)
  then obtain f g where c': "transformConfigFor doc transformer_with_both = Inr (DOMConfig f g)"
    by blast
  show ?thesis
    unfolding importDocument_def w1 w2 fetch_200
    by (simp add: c' w3 w4)
qed

lemma parseArg_job_a:
  "parseArg st ''http://a|a.docx|./t.js'' = ((fst st)\<lparr>documents := documents (fst st) @ [doc_a]\<rparr>, snd st)"
proof -
  have a: "documentOfToken ''http://a|a.docx|./t.js'' = doc_a"
    using split_on_append [of "CHR ''|''" "''http://a''" "''a.docx|./t.js''"]
      split_on_append [of "CHR ''|''" "''a.docx''" "''./t.js''"]
      split_on_no_sep [of "CHR ''|''" "''./t.js''"]
    by (simp add: documentOfToken_def element_at_def doc_a_def)
  have s: "\<not> startsWith ''http://a|a.docx|./t.js'' ''--''"
    by (simp add: startsWith_def)
  show ?thesis
    by (simp add: parseArg_def Let_def s a)
qed

lemma parseArg_job_b:
  "parseArg st ''http://b|b.docx|./u.js'' = ((fst st)\<lparr>documents := documents (fst st) @ [doc_b]\<rparr>, snd st)"
proof -
  have b: "documentOfToken ''http://b|b.docx|./u.js'' = doc_b"
    using split_on_append [of "CHR ''|''" "''http://b''" "''b.docx|./u.js''"]
      split_on_append [of "CHR ''|''" "''b.docx''" "''./u.js''"]
      split_on_no_sep [of "CHR ''|''" "''./u.js''"]
    by (simp add: documentOfToken_def element_at_def doc_b_def)
  have s: "\<not> startsWith ''http://b|b.docx|./u.js'' ''--''"
    by (simp add: startsWith_def)
  show ?thesis
    by (simp add: parseArg_def Let_def s b)
qed

lemma parseArgs_two_jobs: "parseArgs two_jobs = (\<lparr>documents = [doc_a, doc_b], parallel = True\<rparr>, [])"
  by (simp add: parseArgs_def two_jobs_def parseArg_job_a parseArg_job_b)

lemma parseArgs_sequential_two_jobs:
  "parseArgs (''--parallel=false'' # two_jobs) =
     (\<lparr>documents = [doc_a, doc_b], parallel = False\<rparr>, [])"
proof -
  have "parseArg (\<lparr>documents = [], parallel = True\<rparr>, []) ''--parallel=false'' =
      (\<lparr>documents = [], parallel = False\<rparr>, [])"
    by (simp add: parseArg_def option_parts_false)
  then show ?thesis
    by (simp add: parseArgs_def two_jobs_def parseArg_job_a parseArg_job_b)
qed

lemma startAll_both_fail:
  "startAll both_fail [doc_a, doc_b] =
     [Inl (ErrorObj ''TypeError'' ''ERR_INVALID_ARG_TYPE''),
      Inl (ErrorObj ''ReferenceError'' ''e is not defined'')]"
  by (simp add: startAll_def both_fail_def importDocument_fetch_fails
      importDocument_transformer_missing)

lemma startAll_first_fails:
  "startAll first_fails [doc_a, doc_b] =
     [Inl (ErrorObj ''ReferenceError'' ''e is not defined''), Inr example_result]"
  by (simp add: startAll_def first_fails_def importDocument_ok importDocument_transformer_missing)

lemma order_1_0: "set [1, 0] = {0..<length [doc_a, doc_b]}"
  by auto

lemma report_lines:
  "fst (report failures) =
     (if failures = [] then [] else FailedCount (length failures) # fst (reportEach failures))"
  by (simp add: report_def)

text \<open>The pipelines of a batch, by the position of their job in the list.\<close>

lemma startAll_by_index:
  "startAll w docs = map (\<lambda>i. importDocument (w i) (docs ! i)) [0..<length docs]"
  by (rule nth_equalityI) (simp_all add: startAll_def nth_enumerate_eq)

lemma zip_startAll_by_index:
  "zip docs (startAll w docs) =
     map (\<lambda>i. (docs ! i, importDocument (w i) (docs ! i))) [0..<length docs]"
  by (rule nth_equalityI) (simp_all add: startAll_by_index)

lemma rejections_by_index:
  "rejections (startAll w docs) =
     concat (map (\<lambda>i. case importDocument (w i) (docs ! i) of Inl e \<Rightarrow> [e] | Inr v \<Rightarrow> [])
       [0..<length docs])"
  by (simp add: rejections_def startAll_by_index comp_def)

lemma failing_by_index:
  "length (filter isl (startAll w docs)) =
     length (filter (\<lambda>i. isl (importDocument (w i) (docs ! i))) [0..<length docs])"
  by (simp add: startAll_by_index filter_map comp_def)

text \<open>
  C7. In parallel mode, with \<open>N\<close> jobs of which \<open>M\<close> have a pipeline that rejects
  (\<open>importDocument\<close> of the job at position \<open>i\<close>, in the world it meets, gives \<open>Inl\<close>),
  and whatever the order in which the pipelines settle: \<open>main\<close> completes, what was run
  is \<open>importDocument\<close> on each of the \<open>N\<close> jobs, the failure list holds the reasons of
  the \<open>M\<close> rejections and has \<open>M\<close> entries, and when \<open>M\<close> is not 0 the first line of the
  report gives the count \<open>M\<close>. Another complete order of settlement gives the same
  result, and as long as a pipeline has not settled \<open>main\<close> has not completed.
\<close>

theorem parallel_runs_all_jobs_and_counts_failures:
  assumes "parallel (fst (parseArgs args))"
    and "docs = documents (fst (parseArgs args))"
    and "set order = {0..<length docs}"
    and "set order' = {0..<length docs}"
  shows "\<exists>res. main w order args = Some res
           \<and> out_ran res =
               map (\<lambda>i. (docs ! i, importDocument (w i) (docs ! i))) [0..<length docs]
           \<and> map fst (out_ran res) = docs
           \<and> length (out_ran res) = length docs
           \<and> out_failures res =
               concat (map (\<lambda>i. case importDocument (w i) (docs ! i) of
                                    Inl e \<Rightarrow> [e] | Inr v \<Rightarrow> [])
                        [0..<length docs])
           \<and> length (out_failures res) =
               length (filter (\<lambda>i. isl (importDocument (w i) (docs ! i))) [0..<length docs])
           \<and> out_stderr res =
               (if length (filter (\<lambda>i. isl (importDocument (w i) (docs ! i)))
                             [0..<length docs]) = 0
                then []
                else FailedCount
                       (length (filter (\<lambda>i. isl (importDocument (w i) (docs ! i)))
                                  [0..<length docs]))
                     # fst (reportEach (out_failures res)))
           \<and> main w order' args = Some res
           \<and> (\<forall>j unsettled. j < length docs \<and> j \<notin> set unsettled \<longrightarrow>
                  main w unsettled args = None)"
proof -
  let ?res = "\<lparr>out_failures = rejections (startAll w docs),
      out_ran = zip docs (startAll w docs),
      out_stderr = fst (report (rejections (startAll w docs))),
      out_warnings = snd (parseArgs args),
      out_thrown = snd (report (rejections (startAll w docs)))\<rparr>"
  let ?M = "length (filter (\<lambda>i. isl (importDocument (w i) (docs ! i))) [0..<length docs])"
  have m: "main w order args = Some ?res" and m': "main w order' args = Some ?res"
    using assms by (simp_all add: main_parallel)
  have len: "length (rejections (startAll w docs)) = ?M"
    by (simp add: length_rejections failing_by_index)
  then have n: "(rejections (startAll w docs) = []) = (?M = 0)"
    by auto
  have ran: "out_ran ?res =
      map (\<lambda>i. (docs ! i, importDocument (w i) (docs ! i))) [0..<length docs]"
    by (simp add: zip_startAll_by_index)
  have fst_ran: "map fst (out_ran ?res) = docs"
    and len_ran: "length (out_ran ?res) = length docs"
    by (simp_all add: length_startAll)
  have fails: "out_failures ?res =
      concat (map (\<lambda>i. case importDocument (w i) (docs ! i) of Inl e \<Rightarrow> [e] | Inr v \<Rightarrow> [])
        [0..<length docs])"
    by (simp add: rejections_by_index)
  have count: "length (out_failures ?res) = ?M"
    by (simp add: len)
  have err: "out_stderr ?res =
      (if ?M = 0 then [] else FailedCount ?M # fst (reportEach (out_failures ?res)))"
    using n len by (simp add: report_lines)
  have pending: "\<forall>j unsettled. j < length docs \<and> j \<notin> set unsettled \<longrightarrow>
      main w unsettled args = None"
  proof (intro allI impI)
    fix j unsettled
    assume "j < length docs \<and> j \<notin> set unsettled"
    then show "main w unsettled args = None"
      using assms(1,2) main_parallel_pending [of args j unsettled w] by simp
  qed
  show ?thesis
    by (rule exI [of _ ?res]) (intro conjI m ran fst_ran len_ran fails count err m' pending)
qed

theorem parallel_runs_all_jobs_and_counts_failures_witness:
  "\<exists>res. main first_fails [1, 0] two_jobs = Some res
      \<and> out_ran res =
          [(doc_a, Inl (ErrorObj ''ReferenceError'' ''e is not defined'')),
           (doc_b, Inr example_result)]
      \<and> out_failures res = [ErrorObj ''ReferenceError'' ''e is not defined'']
      \<and> out_stderr res = [FailedCount 1, FailedImport Undefined Undefined]
      \<and> main first_fails [0, 1] two_jobs = Some res
      \<and> main first_fails [0] two_jobs = None"
proof -
  have p: "parallel (fst (parseArgs two_jobs))"
    and d: "[doc_a, doc_b] = documents (fst (parseArgs two_jobs))"
    by (simp_all add: parseArgs_two_jobs)
  have o: "set [1, 0] = {0..<length [doc_a, doc_b]}"
    and o': "set [0, 1] = {0..<length [doc_a, doc_b]}"
    by auto
  have a: "importDocument (first_fails 0) doc_a = Inl (ErrorObj ''ReferenceError'' ''e is not defined'')"
    and b: "importDocument (first_fails (Suc 0)) doc_b = Inr example_result"
    by (simp_all add: first_fails_def importDocument_transformer_missing importDocument_ok)
  have idx: "[0..<length [doc_a, doc_b]] = [0, Suc 0]"
    by (simp add: upt_rec)
  from parallel_runs_all_jobs_and_counts_failures [OF p d o o', of first_fails]
  obtain res where r: "main first_fails [1, 0] two_jobs = Some res"
    and ran: "out_ran res =
       map (\<lambda>i. ([doc_a, doc_b] ! i, importDocument (first_fails i) ([doc_a, doc_b] ! i)))
         [0..<length [doc_a, doc_b]]"
    and fails: "out_failures res =
       concat (map (\<lambda>i. case importDocument (first_fails i) ([doc_a, doc_b] ! i) of
                            Inl e \<Rightarrow> [e] | Inr v \<Rightarrow> [])
                [0..<length [doc_a, doc_b]])"
    and err: "out_stderr res =
       (if length (filter (\<lambda>i. isl (importDocument (first_fails i) ([doc_a, doc_b] ! i)))
                     [0..<length [doc_a, doc_b]]) = 0
        then []
        else FailedCount
               (length (filter (\<lambda>i. isl (importDocument (first_fails i) ([doc_a, doc_b] ! i)))
                          [0..<length [doc_a, doc_b]]))
             # fst (reportEach (out_failures res)))"
    and r': "main first_fails [0, 1] two_jobs = Some res"
    and pending: "\<forall>j unsettled. j < length [doc_a, doc_b] \<and> j \<notin> set unsettled \<longrightarrow>
                  main first_fails unsettled two_jobs = None"
    by (elim exE conjE) (rule that)
  have ran': "out_ran res =
      [(doc_a, Inl (ErrorObj ''ReferenceError'' ''e is not defined'')),
       (doc_b, Inr example_result)]"
    unfolding ran idx by (simp add: a b)
  have fails': "out_failures res = [ErrorObj ''ReferenceError'' ''e is not defined'']"
    unfolding fails idx by (simp add: a b)
  have err': "out_stderr res = [FailedCount 1, FailedImport Undefined Undefined]"
    unfolding err idx by (simp add: a b fails')
  have "main first_fails [0] two_jobs = None"
    using pending [rule_format, of 1 "[0]"] by simp
  with r ran' fails' err' r' show ?thesis
    by simp
qed

text \<open>
  C5, as the code has it. In parallel mode the failure list holds the reasons of the
  rejected pipelines in the order of the job list, whatever the order in which the
  pipelines settle.
\<close>

theorem parallel_failures_in_job_list_order:
  assumes "parallel (fst (parseArgs args))"
    and "docs = documents (fst (parseArgs args))"
    and "set order = {0..<length docs}"
  shows "map_option out_failures (main w order args) = Some (rejections (startAll w docs))"
  using assms by (simp add: main_parallel)

theorem parallel_failures_in_job_list_order_witness:
  "map_option out_failures (main both_fail [1, 0] two_jobs) =
     Some [ErrorObj ''TypeError'' ''ERR_INVALID_ARG_TYPE'',
           ErrorObj ''ReferenceError'' ''e is not defined'']"
proof -
  have p: "parallel (fst (parseArgs two_jobs))"
    and d: "[doc_a, doc_b] = documents (fst (parseArgs two_jobs))"
    by (simp_all add: parseArgs_two_jobs)
  have o: "set [1, 0] = {0..<length [doc_a, doc_b]}"
    by auto
  show ?thesis
    using parallel_failures_in_job_list_order [OF p d o, of both_fail]
    by (simp add: startAll_both_fail rejections_def)
qed

text \<open>
  C5 as stated fails. Both jobs fail and the second settles first: in the order of
  settlement its reason would come first, but the failure list of \<open>main\<close> starts with
  the reason of the first job.
\<close>

theorem parallel_failures_not_in_settlement_order:
  "map_option out_failures (main both_fail [1, 0] two_jobs) =
     Some [ErrorObj ''TypeError'' ''ERR_INVALID_ARG_TYPE'',
           ErrorObj ''ReferenceError'' ''e is not defined'']
   \<and> settlementOrderFailures (startAll both_fail [doc_a, doc_b]) [1, 0] =
       [ErrorObj ''ReferenceError'' ''e is not defined'',
        ErrorObj ''TypeError'' ''ERR_INVALID_ARG_TYPE'']
   \<and> map_option out_failures (main both_fail [1, 0] two_jobs) \<noteq>
       Some (settlementOrderFailures (startAll both_fail [doc_a, doc_b]) [1, 0])"
proof -
  have o: "set [1, 0] = {0..<length [doc_a, doc_b]}"
    by auto
  have a: "map_option out_failures (main both_fail [1, 0] two_jobs) =
     Some [ErrorObj ''TypeError'' ''ERR_INVALID_ARG_TYPE'',
           ErrorObj ''ReferenceError'' ''e is not defined'']"
    using o by (simp add: main_parallel parseArgs_two_jobs startAll_both_fail rejections_def)
  have b: "settlementOrderFailures (startAll both_fail [doc_a, doc_b]) [1, 0] =
       [ErrorObj ''ReferenceError'' ''e is not defined'',
        ErrorObj ''TypeError'' ''ERR_INVALID_ARG_TYPE'']"
    by (simp add: settlementOrderFailures_def startAll_both_fail element_at_def)
  show ?thesis
    unfolding a b by simp
qed

text \<open>
  The sequential loop runs \<open>importDocument\<close> on every job of the list, in the order of
  the list, whatever the outcome of the jobs before it, and the failure list holds the
  values the failed pipelines rejected with, in that order.
\<close>

lemma sequential_runs_every_job:
  assumes "\<not> parallel (fst (parseArgs args))"
    and "docs = documents (fst (parseArgs args))"
  shows "\<exists>res. main w order args = Some res
           \<and> out_ran res =
               map (\<lambda>i. (docs ! i, importDocument (w i) (docs ! i))) [0..<length docs]
           \<and> out_failures res =
               concat (map (\<lambda>i. case importDocument (w i) (docs ! i) of
                                    Inl e \<Rightarrow> [e] | Inr v \<Rightarrow> [])
                        [0..<length docs])"
  using assms by (simp add: main_sequential zip_startAll_by_index rejections_by_index)

text \<open>No run of the pipeline rejects with an object \<open>{document, reason}\<close>.\<close>

lemma transformConfigFor_throws:
  "transformConfigFor doc t = Inl v \<Longrightarrow> v = ErrorObj ''ReferenceError'' ''doc is not defined''"
  by (auto simp: transformConfigFor_def importFailure_throws throwResult_def split: option.splits)

lemma importDocument_never_ImportFailure: "importDocument w doc \<noteq> Inl (FailureObj d r)"
proof
  assume "importDocument w doc = Inl (FailureObj d r)"
  then show False
    by (auto simp: importDocument_def fetchAsTextWithRetry_first_attempt importFailure_throws
        throwResult_def split: sum.splits option.splits if_splits
        dest: transformConfigFor_throws)
qed

lemma importFailureSpec_transformer_missing:
  "importFailureSpec doc ''Failed to import transformer'' (ErrorObj ''Error'' ''Cannot find module'') =
     FailureObj (DocObj doc)
       (''Failed to import transformer'' @ nl # ''    Error: Cannot find module'')"
proof -
  have r: "replicate 4 (CHR '' '') = ''    ''"
    by (simp add: numeral_eq_Suc)
  have n: "split_on nl ''Error: Cannot find module'' = [''Error: Cannot find module'']"
    by (rule split_on_no_sep) (simp add: nl_def)
  have i: "indent ''Error: Cannot find module'' 4 = ''    Error: Cannot find module''"
    unfolding indent_def n r by simp
  show ?thesis
    by (simp add: importFailureSpec_def i)
qed

text \<open>
  C6, evaluated. Sequential mode, jobs \<open>[A, B]\<close>; the transformer module of \<open>A\<close>
  cannot be loaded, \<open>B\<close> succeeds. \<open>B\<close> is run and succeeds and the failure list has
  one entry, for \<open>A\<close>; but that entry is the \<open>ReferenceError\<close> thrown by
  \<open>importFailure\<close>, not the failure value of \<open>A\<close> (the job and the reason) that the spec
  asks for.
\<close>

theorem sequential_failure_entry_is_ReferenceError:
  "map_option out_ran (main first_fails [] (''--parallel=false'' # two_jobs)) =
     Some [(doc_a, Inl (ErrorObj ''ReferenceError'' ''e is not defined'')),
           (doc_b, Inr example_result)]
   \<and> map_option out_failures (main first_fails [] (''--parallel=false'' # two_jobs)) =
       Some [ErrorObj ''ReferenceError'' ''e is not defined'']
   \<and> importFailureSpec doc_a ''Failed to import transformer''
        (ErrorObj ''Error'' ''Cannot find module'') =
       FailureObj (DocObj doc_a)
         (''Failed to import transformer'' @ nl # ''    Error: Cannot find module'')"
proof -
  have p: "\<not> parallel (fst (parseArgs (''--parallel=false'' # two_jobs)))"
    and d: "documents (fst (parseArgs (''--parallel=false'' # two_jobs))) = [doc_a, doc_b]"
    by (simp_all add: parseArgs_sequential_two_jobs)
  have s: "startAll first_fails [doc_a, doc_b] =
      [Inl (ErrorObj ''ReferenceError'' ''e is not defined''), Inr example_result]"
    by (rule startAll_first_fails)
  have m: "main first_fails [] (''--parallel=false'' # two_jobs) =
      Some \<lparr>out_failures = [ErrorObj ''ReferenceError'' ''e is not defined''],
            out_ran = [(doc_a, Inl (ErrorObj ''ReferenceError'' ''e is not defined'')),
                       (doc_b, Inr example_result)],
            out_stderr = fst (report [ErrorObj ''ReferenceError'' ''e is not defined'']),
            out_warnings = [],
            out_thrown = snd (report [ErrorObj ''ReferenceError'' ''e is not defined''])\<rparr>"
    unfolding main_sequential [OF p] d s
    by (simp add: rejections_def parseArgs_sequential_two_jobs)
  show ?thesis
    unfolding m by (simp add: importFailureSpec_transformer_missing)
qed

end
